theory Spec2Isabelle
  imports Complex_Main
begin

section \<open>Python values of a decoded submission\<close>

text \<open>
  The ingestion service \<^verbatim>\<open>esp_server.py\<close> works on the value that
  \<^verbatim>\<open>json.loads\<close> returns. Such a value is \<^verbatim>\<open>None\<close>, a bool, an unbounded
  int, a float, a str, a list or a dict with string keys. A dict is an association list
  read with \<open>map_of\<close>; strings are byte strings (ASCII).

  A finite float is identified with the real number it denotes: binary64 rounding of
  in-range values is outside the model, overflow to infinity is inside it. What the
  service needs of \<^verbatim>\<open>str\<close> on a float is that \<^verbatim>\<open>float\<close> reads the text back
  as the same value.
\<close>

datatype pyfloat = Fin real | PInf | NInf | NaN

datatype pyval =
    PNone
  | PBool bool
  | PInt int
  | PFloat pyfloat
  | PStr string
  | PList "pyval list"
  | PDict "(string \<times> pyval) list"

datatype py_exc = ValueError | AttributeError | JSONDecodeError

subsection \<open>String methods\<close>

definition is_space :: "char \<Rightarrow> bool" where
  \<comment> \<open>the ASCII characters for which \<^verbatim>\<open>str.isspace\<close> holds\<close>
  "is_space c = (c \<in> set [CHR 0x09, CHR 0x0A, CHR 0x0B, CHR 0x0C, CHR 0x0D,
                            CHR 0x1C, CHR 0x1D, CHR 0x1E, CHR 0x1F, CHR 0x20])"

definition py_strip :: "string \<Rightarrow> string" where
  "py_strip s = rev (dropWhile is_space (rev (dropWhile is_space s)))"

definition lower_char :: "char \<Rightarrow> char" where
  "lower_char c =
     (case map_of (zip ''ABCDEFGHIJKLMNOPQRSTUVWXYZ'' ''abcdefghijklmnopqrstuvwxyz'') c of
        Some d \<Rightarrow> d | None \<Rightarrow> c)"

definition py_lower :: "string \<Rightarrow> string" where
  "py_lower s = map lower_char s"

subsection \<open>\<^verbatim>\<open>str(x)\<close>\<close>

definition digit_char :: "nat \<Rightarrow> char" where
  "digit_char d = ''0123456789'' ! (d mod 10)"

fun nat_digits :: "nat \<Rightarrow> string" where
  "nat_digits n =
     (if n < 10 then [digit_char n] else nat_digits (n div 10) @ [digit_char (n mod 10)])"

definition int_str :: "int \<Rightarrow> string" where
  "int_str i = (if i < 0 then CHR ''-'' # nat_digits (nat (- i)) else nat_digits (nat i))"

fun frac_digits :: "nat \<Rightarrow> real \<Rightarrow> string" where
  \<comment> \<open>the digits after the point of \<open>r\<close> in \<open>[0, 1)\<close>, at most \<open>k\<close> of them\<close>
  "frac_digits k r =
     (if k = 0 \<or> r = 0 then []
      else digit_char (nat \<lfloor>10 * r\<rfloor>) # frac_digits (k - 1) (10 * r - of_int \<lfloor>10 * r\<rfloor>))"

definition real_str :: "real \<Rightarrow> string" where
  \<comment> \<open>positional notation with at least one digit after the point, as \<^verbatim>\<open>repr\<close> prints
      \<^verbatim>\<open>21.5\<close> and \<^verbatim>\<open>44.0\<close>. Up to 1074 digits follow the point, which is the
      exact expansion of every binary64 value; \<^verbatim>\<open>repr\<close> itself prints the shortest
      digits that \<^verbatim>\<open>float\<close> reads back as the same value.\<close>
  "real_str q =
     (let a = \<bar>q\<bar>; ip = \<lfloor>a\<rfloor>; fd = frac_digits 1074 (a - of_int ip)
      in (if q < 0 then ''-'' else '''') @ nat_digits (nat ip) @ ''.'' @
         (if fd = [] then ''0'' else fd))"

definition float_str :: "pyfloat \<Rightarrow> string" where
  "float_str f = (case f of Fin q \<Rightarrow> real_str q | PInf \<Rightarrow> ''inf'' | NInf \<Rightarrow> ''-inf'' | NaN \<Rightarrow> ''nan'')"

fun join :: "string \<Rightarrow> string list \<Rightarrow> string" where
  "join sep [] = []"
| "join sep [x] = x"
| "join sep (x # y # ys) = x @ sep @ join sep (y # ys)"

fun py_repr :: "pyval \<Rightarrow> string" where
  \<comment> \<open>\<^verbatim>\<open>repr\<close>; a string is quoted without escapes\<close>
  "py_repr PNone = ''None''"
| "py_repr (PBool b) = (if b then ''True'' else ''False'')"
| "py_repr (PInt i) = int_str i"
| "py_repr (PFloat f) = float_str f"
| "py_repr (PStr s) = [CHR 0x27] @ s @ [CHR 0x27]"
| "py_repr (PList xs) = ''['' @ join '', '' (map py_repr xs) @ '']''"
| "py_repr (PDict kvs) =
     ''{'' @ join '', '' (map (\<lambda>kv. [CHR 0x27] @ fst kv @ [CHR 0x27] @ '': '' @ py_repr (snd kv)) kvs)
       @ ''}''"

definition py_str :: "pyval \<Rightarrow> string" where
  "py_str x = (case x of PStr s \<Rightarrow> s | _ \<Rightarrow> py_repr x)"

subsection \<open>\<^verbatim>\<open>float(s)\<close> on a string\<close>

text \<open>
  The grammar of the built-in: surrounding whitespace, an optional sign, then
  \<^verbatim>\<open>inf\<close>, \<^verbatim>\<open>infinity\<close> or \<^verbatim>\<open>nan\<close> in any case, or a decimal number
  \<^verbatim>\<open>[digits] . digits | digits [.]\<close> with an optional exponent; single underscores may
  separate digits. Anything else raises \<^verbatim>\<open>ValueError\<close>.
\<close>

definition digit_val :: "char \<Rightarrow> nat option" where
  "digit_val c = map_of (zip ''0123456789'' [0, 1, 2, 3, 4, 5, 6, 7, 8, 9]) c"

fun more_digits :: "nat list \<Rightarrow> string \<Rightarrow> nat list \<times> string" where
  "more_digits acc [] = (acc, [])"
| "more_digits acc [c] = (case digit_val c of Some d \<Rightarrow> (acc @ [d], []) | None \<Rightarrow> (acc, [c]))"
| "more_digits acc (c # c' # cs) =
     (case digit_val c of
        Some d \<Rightarrow> more_digits (acc @ [d]) (c' # cs)
      | None \<Rightarrow>
          (case digit_val c' of
             Some d \<Rightarrow> if c = CHR ''_'' then more_digits (acc @ [d]) cs else (acc, c # c' # cs)
           | None \<Rightarrow> (acc, c # c' # cs)))"

definition digitpart :: "string \<Rightarrow> (nat list \<times> string) option" where
  "digitpart s =
     (case s of
        [] \<Rightarrow> None
      | c # cs \<Rightarrow> (case digit_val c of None \<Rightarrow> None | Some d \<Rightarrow> Some (more_digits [d] cs)))"

definition digits_val :: "nat list \<Rightarrow> nat" where
  "digits_val ds = foldl (\<lambda>a d. 10 * a + d) 0 ds"

definition take_sign :: "string \<Rightarrow> bool \<times> string" where
  "take_sign s =
     (case s of
        [] \<Rightarrow> (False, [])
      | c # cs \<Rightarrow> if c = CHR ''-'' then (True, cs) else if c = CHR ''+'' then (False, cs)
                  else (False, s))"

definition parse_number :: "string \<Rightarrow> (nat list \<times> nat list \<times> string) option" where
  "parse_number s =
     (case digitpart s of
        Some (ip, rest) \<Rightarrow>
          (case rest of
             [] \<Rightarrow> Some (ip, [], [])
           | c # r2 \<Rightarrow>
               if c = CHR ''.'' then
                 (case digitpart r2 of
                    Some (fp, r3) \<Rightarrow> Some (ip, fp, r3)
                  | None \<Rightarrow> Some (ip, [], r2))
               else Some (ip, [], rest))
      | None \<Rightarrow>
          (case s of
             [] \<Rightarrow> None
           | c # r2 \<Rightarrow>
               if c = CHR ''.'' then
                 (case digitpart r2 of Some (fp, r3) \<Rightarrow> Some ([], fp, r3) | None \<Rightarrow> None)
               else None))"

definition parse_exponent :: "string \<Rightarrow> int option" where
  "parse_exponent s =
     (case s of
        [] \<Rightarrow> Some 0
      | c # cs \<Rightarrow>
          if c = CHR ''e'' \<or> c = CHR ''E'' then
            (case digitpart (snd (take_sign cs)) of
               Some (ds, rest) \<Rightarrow>
                 if rest = [] then
                   Some (if fst (take_sign cs) then - int (digits_val ds) else int (digits_val ds))
                 else None
             | None \<Rightarrow> None)
          else None)"

definition pow10 :: "int \<Rightarrow> real" where
  "pow10 e = (if 0 \<le> e then 10 ^ nat e else 1 / 10 ^ nat (- e))"

definition overflow_limit :: real where
  \<comment> \<open>the least magnitude that rounds to infinity in binary64\<close>
  "overflow_limit = 2 ^ 1024 - 2 ^ 970"

definition py_float :: "string \<Rightarrow> py_exc + pyfloat" where
  "py_float s =
     (let (neg, body) = take_sign (py_strip s); lb = py_lower body
      in if lb = ''inf'' \<or> lb = ''infinity'' then Inr (if neg then NInf else PInf)
         else if lb = ''nan'' then Inr NaN
         else
           (case parse_number body of
              None \<Rightarrow> Inl ValueError
            | Some (ip, fp, rest) \<Rightarrow>
                (case parse_exponent rest of
                   None \<Rightarrow> Inl ValueError
                 | Some e \<Rightarrow>
                     (let m = (of_nat (digits_val ip) + of_nat (digits_val fp) / 10 ^ length fp)
                                * pow10 e
                      in if overflow_limit \<le> m then Inr (if neg then NInf else PInf)
                         else Inr (Fin (if neg then - m else m))))))"

definition isfinite :: "pyfloat \<Rightarrow> bool" where
  "isfinite v = (case v of Fin q \<Rightarrow> True | _ \<Rightarrow> False)"

subsection \<open>Truth values, \<^verbatim>\<open>or\<close>, \<^verbatim>\<open>dict.get\<close>, \<^verbatim>\<open>int(x)\<close>\<close>

definition truthy :: "pyval \<Rightarrow> bool" where
  "truthy x =
     (case x of
        PNone \<Rightarrow> False
      | PBool b \<Rightarrow> b
      | PInt i \<Rightarrow> i \<noteq> 0
      | PFloat f \<Rightarrow> f \<noteq> Fin 0
      | PStr s \<Rightarrow> s \<noteq> []
      | PList xs \<Rightarrow> xs \<noteq> []
      | PDict kvs \<Rightarrow> kvs \<noteq> [])"

definition py_or :: "pyval \<Rightarrow> pyval \<Rightarrow> pyval" where
  \<comment> \<open>\<^verbatim>\<open>a or b\<close>: \<open>a\<close> when it is true, else \<open>b\<close>\<close>
  "py_or a b = (if truthy a then a else b)"

definition dict_get :: "pyval \<Rightarrow> string \<Rightarrow> py_exc + pyval" where
  \<comment> \<open>\<^verbatim>\<open>payload.get(k)\<close>: \<^verbatim>\<open>None\<close> for a missing key; only a dict has the method\<close>
  "dict_get payload k =
     (case payload of
        PDict kvs \<Rightarrow> Inr (case map_of kvs k of Some v \<Rightarrow> v | None \<Rightarrow> PNone)
      | _ \<Rightarrow> Inl AttributeError)"

definition str_strip :: "pyval \<Rightarrow> py_exc + string" where
  \<comment> \<open>\<^verbatim>\<open>x.strip()\<close>: only a str has the method\<close>
  "str_strip x = (case x of PStr s \<Rightarrow> Inr (py_strip s) | _ \<Rightarrow> Inl AttributeError)"

definition py_int :: "real \<Rightarrow> int" where
  \<comment> \<open>\<^verbatim>\<open>int(x)\<close> of a float truncates towards zero\<close>
  "py_int x = (if 0 \<le> x then \<lfloor>x\<rfloor> else \<lceil>x\<rceil>)"

definition bind :: "py_exc + 'a \<Rightarrow> ('a \<Rightarrow> py_exc + 'b) \<Rightarrow> py_exc + 'b" where
  \<comment> \<open>sequencing: an exception of the first statement skips the rest\<close>
  "bind m f = (case m of Inl e \<Rightarrow> Inl e | Inr x \<Rightarrow> f x)"

section \<open>Utilities of the ingestion service\<close>

text \<open>
  \<^verbatim>\<open>to_float\<close> (lines 33--44). The body of the \<^verbatim>\<open>try\<close> is \<open>to_float_try\<close>; the
  handler \<^verbatim>\<open>except Exception: return None\<close> turns every exception of the body into
  \<open>None\<close>.
\<close>

definition to_float_try :: "pyval \<Rightarrow> py_exc + pyfloat option" where
  "to_float_try x =
     (let s = py_strip (py_str x)
      in if s = [] \<or> py_lower s = ''nan'' then Inr None
         else bind (py_float s) (\<lambda>v. Inr (if isfinite v then Some v else None)))"

definition to_float :: "pyval \<Rightarrow> py_exc + pyfloat option" where
  "to_float x =
     (case x of
        PNone \<Rightarrow> Inr None
      | _ \<Rightarrow> (case to_float_try x of Inl e \<Rightarrow> Inr None | Inr r \<Rightarrow> Inr r))"

subsection \<open>Configuration (lines 9--27)\<close>

text \<open>
  The module-level constants as they stand once the module is loaded:
  \<^verbatim>\<open>INDOOR_SENSOR\<close> and \<^verbatim>\<open>OUTDOOR_SENSOR\<close> are lower-cased and stripped by
  lines 25--26, the numbers are read with \<^verbatim>\<open>int\<close>. The handler calls neither
  \<^verbatim>\<open>has_pressure_mmhg\<close> nor \<^verbatim>\<open>canonical_sensor\<close>.
\<close>

record config =
  RETENTION_DAYS :: int
  COMMIT_EVERY :: int
  CLEANUP_EVERY :: int
  CLEANUP_INTERVAL_SEC :: int
  DEFAULT_ZONE :: string
  DEFAULT_SOURCE :: string
  INDOOR_SENSOR :: string
  OUTDOOR_SENSOR :: string
  FORCE_ZONE_BY_SENSOR :: bool

definition default_config :: config where
  \<comment> \<open>the values taken when the environment sets none of the variables\<close>
  "default_config =
     \<lparr>RETENTION_DAYS = 90, COMMIT_EVERY = 1, CLEANUP_EVERY = 400, CLEANUP_INTERVAL_SEC = 60,
      DEFAULT_ZONE = ''indoor'', DEFAULT_SOURCE = ''esp32'', INDOOR_SENSOR = '''',
      OUTDOOR_SENSOR = '''', FORCE_ZONE_BY_SENSOR = False\<rparr>"

subsection \<open>\<^verbatim>\<open>resolve_zone\<close> (lines 68--85)\<close>

definition resolve_zone :: "config \<Rightarrow> string \<Rightarrow> string \<Rightarrow> string" where
  "resolve_zone cfg sensor_canonical zone_from_payload =
     (let s = py_strip (py_lower sensor_canonical)
      in if FORCE_ZONE_BY_SENSOR cfg \<and> INDOOR_SENSOR cfg \<noteq> [] \<and> s = INDOOR_SENSOR cfg
         then ''indoor''
         else if FORCE_ZONE_BY_SENSOR cfg \<and> OUTDOOR_SENSOR cfg \<noteq> [] \<and> s = OUTDOOR_SENSOR cfg
         then ''outdoor''
         else if zone_from_payload \<noteq> [] \<and>
                 py_strip (py_lower zone_from_payload) \<in> set [''indoor'', ''outdoor'']
         then py_strip (py_lower zone_from_payload)
         else DEFAULT_ZONE cfg)"

section \<open>The store and the process-wide state\<close>

text \<open>
  A row of the table \<^verbatim>\<open>readings\<close> (lines 94--104); a column left out of an
  \<^verbatim>\<open>INSERT\<close> is \<^verbatim>\<open>NULL\<close>, here \<open>None\<close>. The table is the list of its rows in
  insertion order.
\<close>

record reading =
  ts :: int
  sensor :: string
  zone :: "string option"
  temp :: "pyfloat option"
  hum :: "pyfloat option"
  press :: "pyfloat option"
  source :: "string option"

text \<open>The calls made on the connection, in the order a request makes them.\<close>

datatype db_call =
    is_Insert: Insert reading
  | is_Commit: Commit
  | is_Delete: Delete int
  | is_Vacuum: IncrementalVacuum

text \<open>The table and the three module-level variables of lines 109--111.\<close>

record server =
  readings :: "reading list"
  inserts_since_commit :: int
  inserts_since_cleanup :: int
  last_cleanup_ts :: real

definition initial :: server where
  "initial = \<lparr>readings = [], inserts_since_commit = 0, inserts_since_cleanup = 0,
              last_cleanup_ts = 0\<rparr>"

section \<open>The request handler \<^verbatim>\<open>SimpleHandler.do_POST\<close> (lines 115--216)\<close>

text \<open>
  \<open>get_or payload k ks\<close> is the chain
  \<^verbatim>\<open>payload.get(k) or payload.get(k') or ...\<close>: the first value that is true, else the
  value under the last key.
\<close>

fun get_or :: "pyval \<Rightarrow> string \<Rightarrow> string list \<Rightarrow> py_exc + pyval" where
  "get_or payload k [] = dict_get payload k"
| "get_or payload k (k' # ks) =
     bind (dict_get payload k) (\<lambda>v. if truthy v then Inr v else get_or payload k' ks)"

text \<open>
  The locals of lines 134--146. The locals \<^verbatim>\<open>zone\<close> and \<^verbatim>\<open>source\<close> are
  \<open>zone_hint\<close> and \<open>source_tag\<close> here, the columns keep their names.
\<close>

record fields =
  t_dht :: "pyfloat option"
  h_dht :: "pyfloat option"
  t_bme :: "pyfloat option"
  h_bme :: "pyfloat option"
  p_bme :: "pyfloat option"
  zone_hint :: string
  source_tag :: string

definition read_fields :: "config \<Rightarrow> pyval \<Rightarrow> py_exc + fields" where
  "read_fields cfg payload =
     bind (bind (get_or payload ''t_dht'' [''temperature_dht'']) to_float) (\<lambda>td.
     bind (bind (get_or payload ''h_dht'' [''humidity_dht'']) to_float) (\<lambda>hd.
     bind (bind (get_or payload ''t_bme'' [''temperature'', ''temp'', ''lt_bme'']) to_float) (\<lambda>tb.
     bind (bind (get_or payload ''h_bme'' [''humidity'', ''hum'']) to_float) (\<lambda>hb.
     bind (bind (get_or payload ''pressure'' [''press'', ''p_bme'']) to_float) (\<lambda>pb.
     bind (bind (dict_get payload ''zone'') (\<lambda>v. str_strip (py_or v (PStr '''')))) (\<lambda>z.
     bind (bind (dict_get payload ''source'')
                (\<lambda>v. str_strip (py_or v (PStr (DEFAULT_SOURCE cfg))))) (\<lambda>s.
     Inr \<lparr>t_dht = td, h_dht = hd, t_bme = tb, h_bme = hb, p_bme = pb,
          zone_hint = z, source_tag = s\<rparr>)))))))"

text \<open>The rows that lines 152--163 and 171--184 build: a column is set only when appended.\<close>

definition dht_reading :: "config \<Rightarrow> int \<Rightarrow> fields \<Rightarrow> reading" where
  "dht_reading cfg stamp f =
     (let z = resolve_zone cfg ''dht22'' (zone_hint f)
      in \<lparr>ts = stamp, sensor = ''dht22'',
          zone = (if z \<noteq> DEFAULT_ZONE cfg then Some z else None),
          temp = t_dht f, hum = h_dht f, press = None,
          source = (if source_tag f \<noteq> DEFAULT_SOURCE cfg then Some (source_tag f) else None)\<rparr>)"

definition bme_reading :: "config \<Rightarrow> int \<Rightarrow> fields \<Rightarrow> reading" where
  "bme_reading cfg stamp f =
     (let z = resolve_zone cfg ''bme280'' (zone_hint f)
      in \<lparr>ts = stamp, sensor = ''bme280'',
          zone = (if z \<noteq> DEFAULT_ZONE cfg then Some z else None),
          temp = t_bme f, hum = h_bme f, press = p_bme f,
          source = (if source_tag f \<noteq> DEFAULT_SOURCE cfg then Some (source_tag f) else None)\<rparr>)"

text \<open>
  A handler in progress is the pair of the calls made so far and the state. The statements
  after the inserts: lines 192--193, 195--197 and 199--208.
\<close>

definition execute_insert :: "reading \<Rightarrow> db_call list \<times> server \<Rightarrow> db_call list \<times> server" where
  "execute_insert r c = (fst c @ [Insert r], (snd c)\<lparr>readings := readings (snd c) @ [r]\<rparr>)"

definition count_write :: "db_call list \<times> server \<Rightarrow> db_call list \<times> server" where
  "count_write c =
     (fst c, (snd c)\<lparr>inserts_since_commit := inserts_since_commit (snd c) + 1,
                    inserts_since_cleanup := inserts_since_cleanup (snd c) + 1\<rparr>)"

definition commit_batch :: "config \<Rightarrow> db_call list \<times> server \<Rightarrow> db_call list \<times> server" where
  "commit_batch cfg c =
     (if COMMIT_EVERY cfg \<le> inserts_since_commit (snd c)
      then (fst c @ [Commit], (snd c)\<lparr>inserts_since_commit := 0\<rparr>)
      else c)"

definition cleanup :: "config \<Rightarrow> real \<Rightarrow> db_call list \<times> server \<Rightarrow> db_call list \<times> server" where
  "cleanup cfg now c =
     (if CLEANUP_EVERY cfg \<le> inserts_since_cleanup (snd c) \<and>
         real_of_int (CLEANUP_INTERVAL_SEC cfg) \<le> now - last_cleanup_ts (snd c)
      then
        (let cutoff = py_int now - RETENTION_DAYS cfg * 24 * 3600;
             rowcount = length (filter (\<lambda>r. ts r < cutoff) (readings (snd c)))
         in (fst c @ [Delete cutoff, Commit] @
               (if 0 < rowcount then [IncrementalVacuum, Commit] else []),
             (snd c)\<lparr>readings := filter (\<lambda>r. \<not> ts r < cutoff) (readings (snd c)),
                      inserts_since_cleanup := 0, last_cleanup_ts := now\<rparr>))
      else c)"

text \<open>
  The handler. \<open>clock1\<close> and \<open>clock2\<close> are the two readings of \<^verbatim>\<open>time.time()\<close>
  (lines 131 and 199), \<open>body\<close> is the outcome of decoding the request body (lines
  127--129). The result is the status sent, the calls made on the connection and the state
  left behind. Every exception of the model arises before the first insert and takes the
  handler of line 212; failures of the storage engine itself are outside the model.
\<close>

definition do_POST ::
  "config \<Rightarrow> real \<Rightarrow> real \<Rightarrow> py_exc + pyval \<Rightarrow> server \<Rightarrow> nat \<times> db_call list \<times> server" where
  "do_POST cfg clock1 clock2 body st =
     (case bind body (read_fields cfg) of
        Inl e \<Rightarrow> (500, [], st)
      | Inr f \<Rightarrow>
          (let stamp = py_int clock1;
               has_dht = (t_dht f \<noteq> None \<or> h_dht f \<noteq> None);
               c1 = (if has_dht then execute_insert (dht_reading cfg stamp f) ([], st)
                     else ([], st));
               has_bme = (t_bme f \<noteq> None \<or> h_bme f \<noteq> None \<or> p_bme f \<noteq> None);
               c2 = (if has_bme then execute_insert (bme_reading cfg stamp f) c1 else c1);
               wrote_any = (has_dht \<or> has_bme);
               c3 = (if wrote_any then cleanup cfg clock2 (commit_batch cfg (count_write c2))
                     else c2)
           in (200, fst c3, snd c3)))"

text \<open>
  \<^verbatim>\<open>run\<close> (lines 218--222) serves the requests one after the other; \<open>serve\<close> is
  that loop over the requests received so far, each with its two clock readings.
\<close>

fun serve ::
  "config \<Rightarrow> (real \<times> real \<times> (py_exc + pyval)) list \<Rightarrow> server \<Rightarrow>
   (nat \<times> db_call list \<times> server) list" where
  "serve cfg [] st = []"
| "serve cfg (rq # rqs) st =
     (let out = do_POST cfg (fst rq) (fst (snd rq)) (snd (snd rq)) st
      in out # serve cfg rqs (snd (snd out)))"

section \<open>Observations on a request\<close>

text \<open>The rows a request inserted, read off its calls.\<close>

fun inserted :: "db_call list \<Rightarrow> reading list" where
  "inserted [] = []"
| "inserted (Insert r # cs) = r # inserted cs"
| "inserted (c # cs) = inserted cs"

text \<open>
  The commit of the write batcher (line 196) is the one made before the sweep's
  \<^verbatim>\<open>DELETE\<close>; the sweep commits again after it (lines 203 and 206).
\<close>

definition batch_commit :: "db_call list \<Rightarrow> bool" where
  "batch_commit tr = (Commit \<in> set (takeWhile (\<lambda>c. \<not> is_Delete c) tr))"

definition wrote :: "nat \<times> db_call list \<times> server \<Rightarrow> bool" where
  "wrote out = (inserted (fst (snd out)) \<noteq> [])"

definition writes :: "(nat \<times> db_call list \<times> server) list \<Rightarrow> nat" where
  \<comment> \<open>how many of the requests inserted a row\<close>
  "writes outs = length (filter wrote outs)"

text \<open>
  Derived notions used to state the results: the rows that lines 150--188 insert for the
  fields read; the condition of line 200 seen from the state before the request, whose
  counter line 193 advances by one first; the cutoff of line 201.
\<close>

definition new_rows :: "config \<Rightarrow> int \<Rightarrow> fields \<Rightarrow> reading list" where
  "new_rows cfg stamp f =
     (if t_dht f \<noteq> None \<or> h_dht f \<noteq> None then [dht_reading cfg stamp f] else []) @
     (if t_bme f \<noteq> None \<or> h_bme f \<noteq> None \<or> p_bme f \<noteq> None
      then [bme_reading cfg stamp f] else [])"

definition sweep_due :: "config \<Rightarrow> real \<Rightarrow> server \<Rightarrow> bool" where
  "sweep_due cfg now st =
     (CLEANUP_EVERY cfg \<le> inserts_since_cleanup st + 1 \<and>
      real_of_int (CLEANUP_INTERVAL_SEC cfg) \<le> now - last_cleanup_ts st)"

definition cutoff_at :: "config \<Rightarrow> real \<Rightarrow> int" where
  "cutoff_at cfg now = py_int now - RETENTION_DAYS cfg * 86400"



section \<open>Concrete submissions, configurations and states\<close>

definition scenario :: pyval where
  \<comment> \<open>\<^verbatim>\<open>{"t_bme": 21.5, "h_bme": 44, "pressure": 751, "zone": "indoor"}\<close>\<close>
  "scenario = PDict [(''t_bme'', PFloat (Fin 21.5)), (''h_bme'', PInt 44),
                     (''pressure'', PInt 751), (''zone'', PStr ''indoor'')]"

definition scenario_row :: reading where
  "scenario_row = \<lparr>ts = 1700000000, sensor = ''bme280'', zone = None,
                    temp = Some (Fin 21.5), hum = Some (Fin 44), press = Some (Fin 751),
                    source = None\<rparr>"

definition zero_first :: pyval where
  \<comment> \<open>\<^verbatim>\<open>{"t_bme": 0, "temperature": 25}\<close>\<close>
  "zero_first = PDict [(''t_bme'', PInt 0), (''temperature'', PInt 25)]"


definition both_groups :: pyval where
  \<comment> \<open>\<^verbatim>\<open>{"t_dht": 22, "pressure": 751}\<close>: a row for each sensor\<close>
  "both_groups = PDict [(''t_dht'', PInt 22), (''pressure'', PInt 751)]"

definition dht_row :: reading where
  "dht_row = \<lparr>ts = 1700000000, sensor = ''dht22'', zone = None, temp = Some (Fin 22),
               hum = None, press = None, source = None\<rparr>"

definition bme_row :: reading where
  "bme_row = \<lparr>ts = 1700000000, sensor = ''bme280'', zone = None, temp = None,
               hum = None, press = Some (Fin 751), source = None\<rparr>"

definition batch_of_two :: config where
  "batch_of_two = default_config\<lparr>COMMIT_EVERY := 2\<rparr>"

definition eager_sweep :: config where
  "eager_sweep = default_config\<lparr>CLEANUP_EVERY := 1\<rparr>"

definition aged_row :: "int \<Rightarrow> reading" where
  "aged_row t = \<lparr>ts = t, sensor = ''dht22'', zone = None, temp = Some (Fin 20), hum = None,
                  press = None, source = None\<rparr>"

definition aged :: server where
  \<comment> \<open>three rows around the cutoff \<open>1700000000 - 90 * 86400 = 1692224000\<close>\<close>
  "aged = initial\<lparr>readings := [aged_row 1692223999, aged_row 1692224000, aged_row 1699999999]\<rparr>"

definition just_swept :: server where
  \<comment> \<open>the last sweep ran ten seconds before \<open>1700000000\<close>\<close>
  "just_swept = initial\<lparr>last_cleanup_ts := 1699999990\<rparr>"

definition bound_indoor :: config where
  "bound_indoor = default_config\<lparr>DEFAULT_ZONE := ''outdoor'', INDOOR_SENSOR := ''bme280'',
                                  FORCE_ZONE_BY_SENSOR := True\<rparr>"

definition three_requests :: "(real \<times> real \<times> (py_exc + pyval)) list" where
  \<comment> \<open>two rows, then an empty submission, then two rows again\<close>
  "three_requests =
     [(1700000000, 1700000000, Inr both_groups), (1700000001, 1700000001, Inr (PDict [])),
      (1700000002, 1700000002, Inr both_groups)]"

section \<open>Facts about the utilities\<close>

lemmas py_defs =
  to_float_def to_float_try_def py_float_def py_str_def py_strip_def is_space_def take_sign_def
  py_lower_def lower_char_def parse_number_def digitpart_def digit_val_def parse_exponent_def
  digits_val_def pow10_def overflow_limit_def isfinite_def float_str_def real_str_def
  int_str_def digit_char_def bind_def

lemmas get_defs = read_fields_def dict_get_def truthy_def py_or_def str_strip_def

lemma strip_tail_prefix: "\<exists>u. a = rev (dropWhile P (rev a)) @ u"
proof -
  have "a = rev (takeWhile P (rev a) @ dropWhile P (rev a))" by simp
  also have "\<dots> = rev (dropWhile P (rev a)) @ rev (takeWhile P (rev a))" by (rule rev_append)
  finally show ?thesis by blast
qed

lemma py_strip_no_lead: "dropWhile is_space (py_strip s) = py_strip s"
proof (cases "py_strip s = []")
  case True
  then show ?thesis by simp
next
  case False
  let ?a = "dropWhile is_space s"
  obtain u where u: "?a = py_strip s @ u"
    using strip_tail_prefix [of ?a is_space] by (auto simp: py_strip_def)
  with False have "?a \<noteq> []" by auto
  then have "\<not> is_space (hd ?a)" by (rule hd_dropWhile)
  moreover have "hd ?a = hd (py_strip s)" using u False by (metis hd_append2)
  ultimately show ?thesis using False by (cases "py_strip s") auto
qed

lemma py_strip_idem: "py_strip (py_strip s) = py_strip s"
proof -
  have "py_strip (py_strip s) = rev (dropWhile is_space (rev (py_strip s)))"
    unfolding py_strip_def [of "py_strip s"] by (simp only: py_strip_no_lead)
  also have "\<dots> = py_strip s" by (simp add: py_strip_def)
  finally show ?thesis .
qed

lemma py_float_strip: "py_float (py_strip s) = py_float s"
  by (simp add: py_float_def py_strip_idem)

lemma py_float_empty: "py_strip s = [] \<Longrightarrow> py_float s = Inl ValueError"
  by (simp add: py_float_def take_sign_def py_lower_def parse_number_def digitpart_def)

lemma take_sign_nan: "py_lower t = ''nan'' \<Longrightarrow> take_sign t = (False, t)"
  by (cases t) (auto simp: take_sign_def py_lower_def lower_char_def)

lemma py_float_nan: "py_lower (py_strip s) = ''nan'' \<Longrightarrow> py_float s = Inr NaN"
  by (simp add: py_float_def take_sign_nan)

lemma to_float_Inr: "\<exists>r. to_float x = Inr r"
  by (cases x) (auto simp: to_float_def split: sum.splits)

lemma to_float_None: "to_float PNone = Inr None"
  by (simp add: to_float_def)

lemma to_float_None_str: "to_float (PStr ''None'') = Inr None"
  by (simp add: py_defs)

lemma to_float_str: "to_float (PStr (py_str x)) = to_float x"
proof (cases x)
  case PNone
  then show ?thesis by (simp add: py_str_def to_float_None_str to_float_None)
qed (simp_all add: to_float_def to_float_try_def py_str_def)

lemma to_float_finite: "to_float x = Inr (Some w) \<Longrightarrow> isfinite w"
  by (cases x)
    (auto simp: to_float_def to_float_try_def bind_def Let_def split: sum.splits if_splits)

lemma to_float_PStr:
  "to_float (PStr s) =
     (case py_float s of Inl e \<Rightarrow> Inr None | Inr v \<Rightarrow> Inr (if isfinite v then Some v else None))"
proof -
  consider "py_strip s = []" | "py_lower (py_strip s) = ''nan''"
    | "py_strip s \<noteq> []" "py_lower (py_strip s) \<noteq> ''nan''" by blast
  then show ?thesis
  proof cases
    case 1
    then show ?thesis
      by (simp add: py_float_empty to_float_def to_float_try_def py_str_def)
  next
    case 2
    then show ?thesis
      by (simp add: py_float_nan to_float_def to_float_try_def py_str_def isfinite_def)
  next
    case 3
    then show ?thesis
      using py_float_strip [of s]
      by (simp add: to_float_def to_float_try_def py_str_def bind_def split: sum.splits)
  qed
qed

lemma to_float_nonfinite: "\<not> isfinite v \<Longrightarrow> to_float (PFloat v) = Inr None"
  by (cases v) (simp_all add: py_defs)

lemma to_float_absent:
  "to_float (PStr '''') = Inr None \<and> to_float (PStr ''nan'') = Inr None \<and>
   to_float (PStr ''inf'') = Inr None \<and> to_float (PStr ''-inf'') = Inr None"
  by (simp add: py_defs)

lemma to_float_21_5: "to_float (PFloat (Fin (43 / 2))) = Inr (Some (Fin (43 / 2)))"
  by (simp add: py_defs)

lemma to_float_44: "to_float (PInt 44) = Inr (Some (Fin 44))"
  by (simp add: py_defs)

lemma to_float_751: "to_float (PInt 751) = Inr (Some (Fin 751))"
  by (simp add: py_defs)

lemma to_float_25: "to_float (PInt 25) = Inr (Some (Fin 25))"
  by (simp add: py_defs)

lemma to_float_22: "to_float (PInt 22) = Inr (Some (Fin 22))"
  by (simp add: py_defs)

lemma py_float_21_5: "py_float ''21.5'' = Inr (Fin (43 / 2))"
  by (simp add: py_defs)

lemma py_float_abc: "py_float ''abc'' = Inl ValueError"
  by (simp add: py_defs)

lemma py_float_1e999: "py_float ''1e999'' = Inr PInf"
  by (simp add: py_defs)

lemma py_str_21_5: "py_str (PFloat (Fin (43 / 2))) = ''21.5''"
  by (simp add: py_defs)

lemma py_strip_indoor: "py_strip ''indoor'' = ''indoor''"
  by (simp add: py_strip_def is_space_def)

lemma py_strip_esp32: "py_strip ''esp32'' = ''esp32''"
  by (simp add: py_strip_def is_space_def)

lemma read_scenario:
  "read_fields cfg scenario =
     Inr \<lparr>t_dht = None, h_dht = None, t_bme = Some (Fin 21.5), h_bme = Some (Fin 44),
          p_bme = Some (Fin 751), zone_hint = ''indoor'',
          source_tag = py_strip (DEFAULT_SOURCE cfg)\<rparr>"
  by (simp add: scenario_def get_defs bind_def to_float_None to_float_21_5 to_float_44
      to_float_751 py_strip_indoor)

lemma read_zero_first:
  "read_fields cfg zero_first =
     Inr \<lparr>t_dht = None, h_dht = None, t_bme = Some (Fin 25), h_bme = None, p_bme = None,
          zone_hint = '''', source_tag = py_strip (DEFAULT_SOURCE cfg)\<rparr>"
  by (simp add: zero_first_def get_defs bind_def to_float_None to_float_25 py_strip_def)

lemma read_both_groups:
  "read_fields cfg both_groups =
     Inr \<lparr>t_dht = Some (Fin 22), h_dht = None, t_bme = None, h_bme = None,
          p_bme = Some (Fin 751), zone_hint = '''', source_tag = py_strip (DEFAULT_SOURCE cfg)\<rparr>"
  by (simp add: both_groups_def get_defs bind_def to_float_None to_float_22 to_float_751
      py_strip_def)

lemma read_empty:
  "read_fields cfg (PDict []) =
     Inr \<lparr>t_dht = None, h_dht = None, t_bme = None, h_bme = None, p_bme = None,
          zone_hint = '''', source_tag = py_strip (DEFAULT_SOURCE cfg)\<rparr>"
  by (simp add: get_defs bind_def to_float_None py_strip_def)

lemma resolve_zone_default:
  "\<not> FORCE_ZONE_BY_SENSOR cfg \<Longrightarrow> DEFAULT_ZONE cfg = ''indoor'' \<Longrightarrow>
   resolve_zone cfg s '''' = ''indoor'' \<and> resolve_zone cfg s ''indoor'' = ''indoor''"
  by (simp add: resolve_zone_def py_lower_def lower_char_def py_strip_def is_space_def)


section \<open>Facts about the request handler\<close>

lemma inserted_append: "inserted (xs @ ys) = inserted xs @ inserted ys"
  by (induction xs rule: inserted.induct) auto

lemma inserted_map_Insert: "inserted (map Insert rows) = rows"
  by (induction rows) auto

lemma do_POST_500: "bind body (read_fields cfg) = Inl e \<Longrightarrow> do_POST cfg c1 c2 body st = (500, [], st)"
  by (simp add: do_POST_def)

lemma do_POST_200:
  assumes "bind body (read_fields cfg) = Inr f"
  shows "do_POST cfg c1 c2 body st =
     (let rows = new_rows cfg (py_int c1) f;
          c = (map Insert rows, st\<lparr>readings := readings st @ rows\<rparr>);
          c' = (if rows \<noteq> [] then cleanup cfg c2 (commit_batch cfg (count_write c)) else c)
      in (200, fst c', snd c'))"
  using assms by (auto simp: do_POST_def new_rows_def execute_insert_def Let_def)

lemma writes_trace:
  "fst (cleanup cfg now (commit_batch cfg (count_write (tr, st)))) =
     tr @ (if COMMIT_EVERY cfg \<le> inserts_since_commit st + 1 then [Commit] else []) @
     (if sweep_due cfg now st
      then [Delete (cutoff_at cfg now), Commit] @
           (if \<exists>r \<in> set (readings st). ts r < cutoff_at cfg now then [IncrementalVacuum, Commit] else [])
      else [])"
  by (auto simp: cleanup_def commit_batch_def count_write_def sweep_due_def cutoff_at_def Let_def filter_empty_conv)

lemma writes_state:
  "readings (snd (cleanup cfg now (commit_batch cfg (count_write (tr, st))))) =
     (if sweep_due cfg now st then filter (\<lambda>r. cutoff_at cfg now \<le> ts r) (readings st) else readings st)"
  "inserts_since_commit (snd (cleanup cfg now (commit_batch cfg (count_write (tr, st))))) =
     (if COMMIT_EVERY cfg \<le> inserts_since_commit st + 1 then 0 else inserts_since_commit st + 1)"
  "inserts_since_cleanup (snd (cleanup cfg now (commit_batch cfg (count_write (tr, st))))) =
     (if sweep_due cfg now st then 0 else inserts_since_cleanup st + 1)"
  "last_cleanup_ts (snd (cleanup cfg now (commit_batch cfg (count_write (tr, st))))) =
     (if sweep_due cfg now st then now else last_cleanup_ts st)"
  by (auto simp: cleanup_def commit_batch_def count_write_def sweep_due_def cutoff_at_def Let_def not_less mult.commute)

lemma sweep_due_readings [simp]: "sweep_due cfg now (st\<lparr>readings := rs\<rparr>) = sweep_due cfg now st"
  by (simp add: sweep_due_def)


lemma do_POST_cases:
  assumes "do_POST cfg c1 c2 body st = (status, tr, st')"
  obtains
    (failed) e where "bind body (read_fields cfg) = Inl e" "status = 500" "tr = []" "st' = st"
  | (nothing) f where "bind body (read_fields cfg) = Inr f" "new_rows cfg (py_int c1) f = []"
      "status = 200" "tr = []" "st' = st"
  | (wrote) f rows where "bind body (read_fields cfg) = Inr f" "rows = new_rows cfg (py_int c1) f"
      "rows \<noteq> []" "status = 200" "inserted tr = rows"
      "tr = map Insert rows @
         (if COMMIT_EVERY cfg \<le> inserts_since_commit st + 1 then [Commit] else []) @
         (if sweep_due cfg c2 st
          then [Delete (cutoff_at cfg c2), Commit] @
               (if \<exists>r \<in> set (readings st @ rows). ts r < cutoff_at cfg c2
                then [IncrementalVacuum, Commit] else [])
          else [])"
      "readings st' =
         (if sweep_due cfg c2 st then filter (\<lambda>r. cutoff_at cfg c2 \<le> ts r) (readings st @ rows)
          else readings st @ rows)"
      "inserts_since_commit st' =
         (if COMMIT_EVERY cfg \<le> inserts_since_commit st + 1 then 0 else inserts_since_commit st + 1)"
      "inserts_since_cleanup st' =
         (if sweep_due cfg c2 st then 0 else inserts_since_cleanup st + 1)"
      "last_cleanup_ts st' = (if sweep_due cfg c2 st then c2 else last_cleanup_ts st)"
proof (cases "bind body (read_fields cfg)")
  case (Inl e)
  with assms have "status = 500" "tr = []" "st' = st" by (simp_all add: do_POST_500)
  with Inl show ?thesis by (rule failed)
next
  case (Inr f)
  show ?thesis
  proof (cases "new_rows cfg (py_int c1) f = []")
    case True
    with assms Inr have "status = 200" "tr = []" "st' = st"
      by (simp_all add: do_POST_200 Let_def)
    with Inr True show ?thesis by (rule nothing)
  next
    case False
    let ?rows = "new_rows cfg (py_int c1) f"
    let ?c = "cleanup cfg c2 (commit_batch cfg (count_write
                (map Insert ?rows, st\<lparr>readings := readings st @ ?rows\<rparr>)))"
    from assms Inr False have r: "status = 200" "tr = fst ?c" "st' = snd ?c"
      by (simp_all add: do_POST_200 Let_def)
    have tr: "tr = map Insert ?rows @
         (if COMMIT_EVERY cfg \<le> inserts_since_commit st + 1 then [Commit] else []) @
         (if sweep_due cfg c2 st
          then [Delete (cutoff_at cfg c2), Commit] @
               (if \<exists>r \<in> set (readings st @ ?rows). ts r < cutoff_at cfg c2
                then [IncrementalVacuum, Commit] else [])
          else [])"
      unfolding r(2) writes_trace by simp
    have ins: "inserted tr = ?rows"
      unfolding tr by (simp add: inserted_append inserted_map_Insert)
    show ?thesis
    proof (rule wrote [OF Inr refl False r(1) ins])
      show "tr = map Insert ?rows @
         (if COMMIT_EVERY cfg \<le> inserts_since_commit st + 1 then [Commit] else []) @
         (if sweep_due cfg c2 st
          then [Delete (cutoff_at cfg c2), Commit] @
               (if \<exists>r \<in> set (readings st @ ?rows). ts r < cutoff_at cfg c2
                then [IncrementalVacuum, Commit] else [])
          else [])"
        by (rule tr)
    qed (simp_all add: r(3) writes_state)
  qed
qed

lemma filter_shorter: "length (filter P xs) < length xs \<longleftrightarrow> (\<exists>x \<in> set xs. \<not> P x)"
  by (metis filter_True length_filter_less nat_neq_iff)

lemma new_rows_dht: "r \<in> set (new_rows cfg stamp f) \<Longrightarrow> sensor r = ''dht22'' \<Longrightarrow> press r = None"
  by (auto simp: new_rows_def dht_reading_def bme_reading_def Let_def split: if_splits)

lemma succ_mod:
  fixes T :: int
  assumes "1 \<le> T"
  shows "int (k + 1) mod T = (if T \<le> int k mod T + 1 then 0 else int k mod T + 1)"
proof -
  have b: "0 \<le> int k mod T" "int k mod T < T" using assms by simp_all
  have "int (k + 1) = int k + 1" by simp
  then have e: "int (k + 1) mod T = (int k mod T + 1) mod T"
    by (simp only: mod_add_left_eq)
  show ?thesis
  proof (cases "T \<le> int k mod T + 1")
    case True
    with b have "int k mod T + 1 = T" by linarith
    with e True show ?thesis by simp
  next
    case False
    with b e show ?thesis by simp
  qed
qed

lemma succ_dvd:
  fixes T :: int
  assumes "1 \<le> T"
  shows "T dvd int (k + 1) \<longleftrightarrow> T \<le> int k mod T + 1"
proof -
  have b: "0 \<le> int k mod T" using assms by simp
  have "T dvd int (k + 1) \<longleftrightarrow> int (k + 1) mod T = 0" by (simp add: dvd_eq_mod_eq_0)
  also have "\<dots> \<longleftrightarrow> T \<le> int k mod T + 1"
    unfolding succ_mod [OF assms] using b by auto
  finally show ?thesis .
qed

lemma batch_commit_trace:
  "batch_commit (map Insert rows @ (if b then [Commit] else []) @
      (if d then [Delete k, Commit] @ rest else [])) = b"
  by (induction rows) (auto simp: batch_commit_def takeWhile_append)

lemma step_flush:
  assumes T: "1 \<le> COMMIT_EVERY cfg"
    and c: "inserts_since_commit st = int k mod COMMIT_EVERY cfg"
    and out: "out = do_POST cfg c1 c2 body st"
  shows "inserts_since_commit (snd (snd out)) =
           int (k + (if wrote out then 1 else 0)) mod COMMIT_EVERY cfg \<and>
         (batch_commit (fst (snd out)) \<longleftrightarrow> wrote out \<and> COMMIT_EVERY cfg dvd int (k + 1))"
proof -
  obtain status tr st' where o: "do_POST cfg c1 c2 body st = (status, tr, st')"
    by (cases "do_POST cfg c1 c2 body st") auto
  note m = succ_mod [OF T, of k] and d = succ_dvd [OF T, of k]
  from o show ?thesis
  proof (cases rule: do_POST_cases)
    case (failed e)
    then show ?thesis using o out c by (simp add: wrote_def batch_commit_def)
  next
    case (nothing f)
    then show ?thesis using o out c by (simp add: wrote_def batch_commit_def)
  next
    case (wrote f rows)
    have w: "wrote out" using wrote o out by (simp add: wrote_def)
    have "batch_commit tr \<longleftrightarrow> COMMIT_EVERY cfg \<le> inserts_since_commit st + 1"
      unfolding wrote(6) by (rule batch_commit_trace)
    then show ?thesis using w wrote(8) o out c m d by simp
  qed
qed

lemma serve_flush:
  assumes T: "1 \<le> COMMIT_EVERY cfg"
  shows "inserts_since_commit st = int k mod COMMIT_EVERY cfg \<Longrightarrow> i < length rqs \<Longrightarrow>
     inserts_since_commit (snd (snd (serve cfg rqs st ! i))) =
        int (k + writes (take (Suc i) (serve cfg rqs st))) mod COMMIT_EVERY cfg \<and>
     (batch_commit (fst (snd (serve cfg rqs st ! i))) \<longleftrightarrow>
        wrote (serve cfg rqs st ! i) \<and>
        COMMIT_EVERY cfg dvd int (k + writes (take (Suc i) (serve cfg rqs st))))"
proof (induction rqs arbitrary: st k i)
  case Nil
  then show ?case by simp
next
  case (Cons rq rqs)
  let ?out = "do_POST cfg (fst rq) (fst (snd rq)) (snd (snd rq)) st"
  note s = step_flush [OF T Cons.prems(1) refl, of "fst rq" "fst (snd rq)" "snd (snd rq)"]
  show ?case
  proof (cases i)
    case 0
    with s show ?thesis by (auto simp: Let_def writes_def add.commute)
  next
    case (Suc j)
    with Cons.prems have j: "j < length rqs" by simp
    from s have c: "inserts_since_commit (snd (snd ?out)) =
        int (k + (if wrote ?out then 1 else 0)) mod COMMIT_EVERY cfg" by simp
    note ih = Cons.IH [OF c j]
    show ?thesis using ih Suc by (simp add: Let_def writes_def add.assoc)
  qed
qed


lemma do_POST_payload:
  assumes "read_fields cfg payload = Inr f"
  shows "do_POST cfg c1 c2 (Inr payload) st =
     (let rows = new_rows cfg (py_int c1) f;
          c = (map Insert rows, st\<lparr>readings := readings st @ rows\<rparr>);
          c' = (if rows \<noteq> [] then cleanup cfg c2 (commit_batch cfg (count_write c)) else c)
      in (200, fst c', snd c'))"
  by (rule do_POST_200) (simp add: bind_def assms)

lemma triple_collapse: "x = (fst x, fst (snd x), snd (snd x))"
  by simp

lemmas cfg_defs = default_config_def batch_of_two_def eager_sweep_def bound_indoor_def

lemmas row_defs = dht_row_def bme_row_def scenario_row_def aged_row_def

lemmas step_defs = cleanup_def commit_batch_def count_write_def

lemma py_int_whole [simp]: "py_int 1700000000 = 1700000000" "py_int 1700000002 = 1700000002"
  "py_int (3400000001 / 2) = 1700000000"
  by (simp_all add: py_int_def)

lemma new_rows_scenario:
  "new_rows default_config 1700000000
     \<lparr>t_dht = None, h_dht = None, t_bme = Some (Fin 21.5), h_bme = Some (Fin 44),
      p_bme = Some (Fin 751), zone_hint = ''indoor'',
      source_tag = py_strip (DEFAULT_SOURCE default_config)\<rparr> = [scenario_row]"
  by (simp add: new_rows_def bme_reading_def scenario_row_def default_config_def
      resolve_zone_default py_strip_esp32)

lemma new_rows_zero_first:
  "new_rows default_config 1700000000
     \<lparr>t_dht = None, h_dht = None, t_bme = Some (Fin 25), h_bme = None, p_bme = None,
      zone_hint = '''', source_tag = py_strip (DEFAULT_SOURCE default_config)\<rparr> =
   [\<lparr>ts = 1700000000, sensor = ''bme280'', zone = None, temp = Some (Fin 25), hum = None,
     press = None, source = None\<rparr>]"
  by (simp add: new_rows_def bme_reading_def default_config_def resolve_zone_default
      py_strip_esp32)

lemma new_rows_both_groups:
  assumes "\<not> FORCE_ZONE_BY_SENSOR cfg" "DEFAULT_ZONE cfg = ''indoor''"
    "DEFAULT_SOURCE cfg = ''esp32''"
  shows "new_rows cfg stamp
     \<lparr>t_dht = Some (Fin 22), h_dht = None, t_bme = None, h_bme = None,
      p_bme = Some (Fin 751), zone_hint = '''', source_tag = py_strip (DEFAULT_SOURCE cfg)\<rparr> =
   [dht_row\<lparr>ts := stamp\<rparr>, bme_row\<lparr>ts := stamp\<rparr>]"
  using assms
  by (simp add: new_rows_def dht_reading_def bme_reading_def dht_row_def bme_row_def
      resolve_zone_default py_strip_esp32)

lemma scenario_inserted:
  assumes "py_int clock1 = 1700000000"
  shows "fst (do_POST default_config clock1 clock2 (Inr scenario) st) = 200 \<and>
         inserted (fst (snd (do_POST default_config clock1 clock2 (Inr scenario) st))) =
           [scenario_row]"
proof -
  obtain status tr st' where
    o: "do_POST default_config clock1 clock2 (Inr scenario) st = (status, tr, st')"
    by (cases "do_POST default_config clock1 clock2 (Inr scenario) st") auto
  have b: "bind (Inr scenario) (read_fields default_config) =
      Inr \<lparr>t_dht = None, h_dht = None, t_bme = Some (Fin 21.5), h_bme = Some (Fin 44),
           p_bme = Some (Fin 751), zone_hint = ''indoor'',
           source_tag = py_strip (DEFAULT_SOURCE default_config)\<rparr>"
    by (simp add: bind_def read_scenario)
  from o have "status = 200 \<and> inserted tr = [scenario_row]"
  proof (cases rule: do_POST_cases)
    case (failed e)
    with b show ?thesis by simp
  next
    case (nothing f)
    with b assms new_rows_scenario show ?thesis by simp
  next
    case (wrote f rows)
    with b assms new_rows_scenario show ?thesis by simp
  qed
  with o show ?thesis by simp
qed

lemma zero_first_eval:
  "do_POST default_config 1700000000 1700000000 (Inr zero_first) initial =
     (200,
      [Insert \<lparr>ts = 1700000000, sensor = ''bme280'', zone = None, temp = Some (Fin 25),
               hum = None, press = None, source = None\<rparr>, Commit],
      \<lparr>readings = [\<lparr>ts = 1700000000, sensor = ''bme280'', zone = None, temp = Some (Fin 25),
                     hum = None, press = None, source = None\<rparr>],
       inserts_since_commit = 0, inserts_since_cleanup = 1, last_cleanup_ts = 0\<rparr>)"
  by (simp add: do_POST_payload [OF read_zero_first] new_rows_zero_first step_defs initial_def)
    (simp add: default_config_def)

lemma lone_zero_eval:
  "do_POST default_config 1700000000 1700000000 (Inr (PDict [(''t_bme'', PInt 0)])) initial =
     (200, [], initial)"
proof -
  have "read_fields default_config (PDict [(''t_bme'', PInt 0)]) =
     Inr \<lparr>t_dht = None, h_dht = None, t_bme = None, h_bme = None, p_bme = None,
          zone_hint = '''', source_tag = py_strip (DEFAULT_SOURCE default_config)\<rparr>"
    by (simp add: get_defs bind_def to_float_None py_strip_def)
  from do_POST_payload [OF this] show ?thesis
    by (simp add: new_rows_def)
qed

lemma both_batch_of_two_eval:
  "do_POST batch_of_two 1700000000 1700000000 (Inr both_groups) initial =
     (200, [Insert dht_row, Insert bme_row],
      \<lparr>readings = [dht_row, bme_row], inserts_since_commit = 1, inserts_since_cleanup = 1,
       last_cleanup_ts = 0\<rparr>)"
proof -
  have n: "new_rows batch_of_two 1700000000
     \<lparr>t_dht = Some (Fin 22), h_dht = None, t_bme = None, h_bme = None,
      p_bme = Some (Fin 751), zone_hint = '''',
      source_tag = py_strip (DEFAULT_SOURCE batch_of_two)\<rparr> = [dht_row, bme_row]"
    by (subst new_rows_both_groups) (simp_all add: cfg_defs row_defs)
  show ?thesis
    by (simp add: do_POST_payload [OF read_both_groups] n step_defs initial_def)
      (simp add: cfg_defs)
qed

lemma new_rows_both_eager:
  "new_rows eager_sweep 1700000000
     \<lparr>t_dht = Some (Fin 22), h_dht = None, t_bme = None, h_bme = None,
      p_bme = Some (Fin 751), zone_hint = '''',
      source_tag = py_strip (DEFAULT_SOURCE eager_sweep)\<rparr> = [dht_row, bme_row]"
  using new_rows_both_groups [of eager_sweep 1700000000] by (simp add: cfg_defs row_defs)

lemma new_rows_both_later:
  "new_rows batch_of_two 1700000002
     \<lparr>t_dht = Some (Fin 22), h_dht = None, t_bme = None, h_bme = None,
      p_bme = Some (Fin 751), zone_hint = '''',
      source_tag = py_strip (DEFAULT_SOURCE batch_of_two)\<rparr> =
     [dht_row\<lparr>ts := 1700000002\<rparr>, bme_row\<lparr>ts := 1700000002\<rparr>]"
  using new_rows_both_groups [of batch_of_two 1700000002] by (simp add: cfg_defs)

lemmas new_rows_both_at = new_rows_both_eager new_rows_both_later

lemma both_eager_initial_eval:
  "do_POST eager_sweep 1700000000 1700000000 (Inr both_groups) initial =
     (200, [Insert dht_row, Insert bme_row, Commit, Delete 1692224000, Commit],
      \<lparr>readings = [dht_row, bme_row], inserts_since_commit = 0, inserts_since_cleanup = 0,
       last_cleanup_ts = 1700000000\<rparr>)"
  by (simp add: do_POST_payload [OF read_both_groups] new_rows_both_at step_defs initial_def)
    (simp add: cfg_defs row_defs)

lemma both_eager_aged_eval:
  "do_POST eager_sweep 1700000000 1700000000.5 (Inr both_groups) aged =
     (200,
      [Insert dht_row, Insert bme_row, Commit, Delete 1692224000, Commit,
       IncrementalVacuum, Commit],
      \<lparr>readings = [aged_row 1692224000, aged_row 1699999999, dht_row, bme_row],
       inserts_since_commit = 0, inserts_since_cleanup = 0, last_cleanup_ts = 1700000000.5\<rparr>)"
  by (simp add: do_POST_payload [OF read_both_groups] new_rows_both_at step_defs initial_def
      aged_def)
    (simp add: cfg_defs row_defs)

lemma empty_eval: "do_POST cfg c1 c2 (Inr (PDict [])) st = (200, [], st)"
  by (simp add: do_POST_payload [OF read_empty] new_rows_def)

lemma both_batch_of_two_later_eval:
  "do_POST batch_of_two 1700000002 1700000002 (Inr both_groups)
     \<lparr>readings = [dht_row, bme_row], inserts_since_commit = 1, inserts_since_cleanup = 1,
      last_cleanup_ts = 0\<rparr> =
     (200,
      [Insert (dht_row\<lparr>ts := 1700000002\<rparr>), Insert (bme_row\<lparr>ts := 1700000002\<rparr>), Commit],
      \<lparr>readings = [dht_row, bme_row, dht_row\<lparr>ts := 1700000002\<rparr>,
                   bme_row\<lparr>ts := 1700000002\<rparr>],
       inserts_since_commit = 0, inserts_since_cleanup = 2, last_cleanup_ts = 0\<rparr>)"
  by (simp add: do_POST_payload [OF read_both_groups] new_rows_both_at step_defs Let_def)
    (simp add: cfg_defs)

lemma serve_three_eval:
  "serve batch_of_two three_requests initial =
     [(200, [Insert dht_row, Insert bme_row],
       \<lparr>readings = [dht_row, bme_row], inserts_since_commit = 1, inserts_since_cleanup = 1,
        last_cleanup_ts = 0\<rparr>),
      (200, [],
       \<lparr>readings = [dht_row, bme_row], inserts_since_commit = 1, inserts_since_cleanup = 1,
        last_cleanup_ts = 0\<rparr>),
      (200,
       [Insert (dht_row\<lparr>ts := 1700000002\<rparr>), Insert (bme_row\<lparr>ts := 1700000002\<rparr>), Commit],
       \<lparr>readings = [dht_row, bme_row, dht_row\<lparr>ts := 1700000002\<rparr>,
                    bme_row\<lparr>ts := 1700000002\<rparr>],
        inserts_since_commit = 0, inserts_since_cleanup = 2, last_cleanup_ts = 0\<rparr>)]"
  by (simp add: three_requests_def Let_def both_batch_of_two_eval empty_eval
      both_batch_of_two_later_eval)













section \<open>Numeric coercion\<close>

text \<open>
  Claim C9. \<^verbatim>\<open>to_float\<close> never raises: for every value it returns a result. It
  returns \<^verbatim>\<open>None\<close> for \<^verbatim>\<open>None\<close>, for the empty string, for the strings
  \<^verbatim>\<open>nan\<close>, \<^verbatim>\<open>inf\<close> and \<^verbatim>\<open>-inf\<close>, for every float that is not finite and for
  every string that \<^verbatim>\<open>float\<close> rejects or reads as a value that is not finite. A string
  that \<^verbatim>\<open>float\<close> reads as a finite value is stored as that value, every stored value
  is finite, and the string form \<^verbatim>\<open>str(x)\<close> of a value coerces to what the value
  itself coerces to.
\<close>

theorem to_float_never_raises:
  "(\<exists>r. to_float x = Inr r) \<and>
   to_float PNone = Inr None \<and> to_float (PStr '''') = Inr None \<and>
   to_float (PStr ''nan'') = Inr None \<and> to_float (PStr ''inf'') = Inr None \<and>
   to_float (PStr ''-inf'') = Inr None \<and>
   (\<not> isfinite v \<longrightarrow> to_float (PFloat v) = Inr None) \<and>
   (py_float s = Inl e \<longrightarrow> to_float (PStr s) = Inr None) \<and>
   (py_float s = Inr v \<and> \<not> isfinite v \<longrightarrow> to_float (PStr s) = Inr None) \<and>
   (py_float s = Inr v \<and> isfinite v \<longrightarrow> to_float (PStr s) = Inr (Some v)) \<and>
   to_float (PStr (py_str x)) = to_float x \<and>
   (to_float x = Inr (Some w) \<longrightarrow> isfinite w)"
proof -
  have "\<exists>r. to_float x = Inr r" by (rule to_float_Inr)
  moreover have "\<not> isfinite v \<longrightarrow> to_float (PFloat v) = Inr None"
    by (simp add: to_float_nonfinite)
  moreover have "py_float s = Inl e \<longrightarrow> to_float (PStr s) = Inr None"
    by (simp add: to_float_PStr)
  moreover have "py_float s = Inr v \<and> \<not> isfinite v \<longrightarrow> to_float (PStr s) = Inr None"
    by (simp add: to_float_PStr)
  moreover have "py_float s = Inr v \<and> isfinite v \<longrightarrow> to_float (PStr s) = Inr (Some v)"
    by (simp add: to_float_PStr)
  moreover have "to_float x = Inr (Some w) \<longrightarrow> isfinite w"
    by (blast dest: to_float_finite)
  ultimately show ?thesis
    using to_float_None to_float_absent to_float_str [of x] by blast
qed

theorem to_float_never_raises_witness:
  "\<not> isfinite PInf \<and> to_float (PFloat PInf) = Inr None \<and>
   py_float ''abc'' = Inl ValueError \<and> to_float (PStr ''abc'') = Inr None \<and>
   py_float ''1e999'' = Inr PInf \<and> to_float (PStr ''1e999'') = Inr None \<and>
   py_float ''21.5'' = Inr (Fin 21.5) \<and> isfinite (Fin 21.5) \<and>
   to_float (PStr ''21.5'') = Inr (Some (Fin 21.5)) \<and>
   py_str (PFloat (Fin 21.5)) = ''21.5'' \<and>
   to_float (PFloat (Fin 21.5)) = Inr (Some (Fin 21.5))"
proof -
  have i: "\<not> isfinite PInf" "isfinite (Fin 21.5)" by (simp_all add: isfinite_def)
  have a: "py_float ''abc'' = Inl ValueError" by (rule py_float_abc)
  have b: "py_float ''1e999'' = Inr PInf" by (rule py_float_1e999)
  have c: "py_float ''21.5'' = Inr (Fin 21.5)" using py_float_21_5 by simp
  have d: "py_str (PFloat (Fin 21.5)) = ''21.5''" using py_str_21_5 by simp
  note t1 = to_float_never_raises [of "PFloat (Fin 21.5)" PInf "''abc''" ValueError "Fin 21.5"]
  note t2 = to_float_never_raises [of "PFloat (Fin 21.5)" PInf "''1e999''" ValueError "Fin 21.5"]
  note t3 = to_float_never_raises [of "PFloat (Fin 21.5)" "Fin 21.5" "''21.5''" ValueError "Fin 21.5"]
  have r1: "to_float (PFloat PInf) = Inr None" using t1 i(1) by blast
  have r2: "to_float (PStr ''abc'') = Inr None" using t1 a by blast
  have r3: "to_float (PStr ''1e999'') = Inr None" using t2 b i(1) by blast
  have r4: "to_float (PStr ''21.5'') = Inr (Some (Fin 21.5))" using t3 c i(2) by blast
  have "to_float (PStr (py_str (PFloat (Fin 21.5)))) = to_float (PFloat (Fin 21.5))"
    using t3 by blast
  then have r5: "to_float (PFloat (Fin 21.5)) = Inr (Some (Fin 21.5))"
    by (simp only: d r4)
  from i a b c d r1 r2 r3 r4 r5 show ?thesis by blast
qed

section \<open>Zone resolution\<close>

text \<open>
  Claim C8. \<^verbatim>\<open>resolve_zone\<close> is a function of the sensor kind, the zone hint and
  the configuration alone. With the hard binding enabled and the sensor bound as the indoor
  sensor, the zone is \<^verbatim>\<open>indoor\<close> whatever the hint, a hint \<^verbatim>\<open>outdoor\<close> included;
  with the hard binding disabled, a hint \<^verbatim>\<open>outdoor\<close> gives \<^verbatim>\<open>outdoor\<close>. When no
  binding applies, a hint that is \<^verbatim>\<open>indoor\<close> or \<^verbatim>\<open>outdoor\<close> after lower-casing and
  trimming gives that value, and any other hint gives the configured default zone.
\<close>

theorem resolve_zone_precedence:
  "(FORCE_ZONE_BY_SENSOR cfg \<and> INDOOR_SENSOR cfg \<noteq> [] \<and>
      py_strip (py_lower sensor_kind) = INDOOR_SENSOR cfg \<longrightarrow>
      resolve_zone cfg sensor_kind hint = ''indoor'') \<and>
   (\<not> FORCE_ZONE_BY_SENSOR cfg \<and> py_strip (py_lower hint) = ''outdoor'' \<longrightarrow>
      resolve_zone cfg sensor_kind hint = ''outdoor'') \<and>
   (\<not> (FORCE_ZONE_BY_SENSOR cfg \<and>
        (INDOOR_SENSOR cfg \<noteq> [] \<and> py_strip (py_lower sensor_kind) = INDOOR_SENSOR cfg \<or>
         OUTDOOR_SENSOR cfg \<noteq> [] \<and> py_strip (py_lower sensor_kind) = OUTDOOR_SENSOR cfg)) \<longrightarrow>
      resolve_zone cfg sensor_kind hint =
        (if py_strip (py_lower hint) = ''indoor'' \<or> py_strip (py_lower hint) = ''outdoor''
         then py_strip (py_lower hint) else DEFAULT_ZONE cfg))"
proof -
  have e: "py_strip (py_lower []) = []" by (simp add: py_strip_def py_lower_def)
  show ?thesis
    by (cases "hint = []") (auto simp: resolve_zone_def Let_def e)
qed

theorem resolve_zone_precedence_witness:
  "resolve_zone bound_indoor ''bme280'' ''outdoor'' = ''indoor'' \<and>
   resolve_zone (bound_indoor\<lparr>FORCE_ZONE_BY_SENSOR := False\<rparr>) ''bme280'' ''outdoor'' = ''outdoor'' \<and>
   resolve_zone bound_indoor ''dht22'' '' InDoor '' = ''indoor'' \<and>
   resolve_zone bound_indoor ''dht22'' ''garden'' = ''outdoor'' \<and>
   resolve_zone bound_indoor ''dht22'' '''' = DEFAULT_ZONE bound_indoor"
proof -
  have l: "py_strip (py_lower ''bme280'') = ''bme280''" "py_strip (py_lower ''dht22'') = ''dht22''"
    "py_strip (py_lower ''outdoor'') = ''outdoor''" "py_strip (py_lower '' InDoor '') = ''indoor''"
    "py_strip (py_lower ''garden'') = ''garden''" "py_strip (py_lower '''') = ''''"
    by (simp_all add: py_strip_def py_lower_def lower_char_def is_space_def)
  have c: "FORCE_ZONE_BY_SENSOR bound_indoor" "INDOOR_SENSOR bound_indoor = ''bme280''"
    "OUTDOOR_SENSOR bound_indoor = ''''" "DEFAULT_ZONE bound_indoor = ''outdoor''"
    "\<not> FORCE_ZONE_BY_SENSOR (bound_indoor\<lparr>FORCE_ZONE_BY_SENSOR := False\<rparr>)"
    by (simp_all add: cfg_defs)
  have r1: "resolve_zone bound_indoor ''bme280'' ''outdoor'' = ''indoor''"
    using resolve_zone_precedence [of bound_indoor "''bme280''" "''outdoor''"] l c by simp
  have r2: "resolve_zone (bound_indoor\<lparr>FORCE_ZONE_BY_SENSOR := False\<rparr>) ''bme280'' ''outdoor''
      = ''outdoor''"
    using resolve_zone_precedence
      [of "bound_indoor\<lparr>FORCE_ZONE_BY_SENSOR := False\<rparr>" "''bme280''" "''outdoor''"] l c(5)
    by simp
  have r3: "resolve_zone bound_indoor ''dht22'' '' InDoor '' = ''indoor''"
    using resolve_zone_precedence [of bound_indoor "''dht22''" "'' InDoor ''"] l c by simp
  have r4: "resolve_zone bound_indoor ''dht22'' ''garden'' = ''outdoor''"
    using resolve_zone_precedence [of bound_indoor "''dht22''" "''garden''"] l c by simp
  have r5: "resolve_zone bound_indoor ''dht22'' '''' = DEFAULT_ZONE bound_indoor"
    using resolve_zone_precedence [of bound_indoor "''dht22''" "''''"] l c by simp
  from r1 r2 r3 r4 r5 show ?thesis by blast
qed

section \<open>Rows of the DHT group\<close>

text \<open>
  Claim C10. Every row a request inserts with sensor \<^verbatim>\<open>dht22\<close> has no pressure: the
  column is \<^verbatim>\<open>NULL\<close> whatever the submission holds, a pressure value included.
\<close>

theorem dht_rows_have_no_pressure:
  assumes "do_POST cfg clock1 clock2 body st = (status, tr, st')"
  shows "\<forall>r \<in> set (inserted tr). sensor r = ''dht22'' \<longrightarrow> press r = None"
  using assms
  by (cases rule: do_POST_cases) (auto dest: new_rows_dht)

theorem dht_rows_have_no_pressure_witness:
  "do_POST batch_of_two 1700000000 1700000000 (Inr both_groups) initial =
     (200, [Insert dht_row, Insert bme_row],
      \<lparr>readings = [dht_row, bme_row], inserts_since_commit = 1, inserts_since_cleanup = 1,
       last_cleanup_ts = 0\<rparr>) \<and>
   dht_row \<in> set (inserted [Insert dht_row, Insert bme_row]) \<and>
   sensor dht_row = ''dht22'' \<and> press dht_row = None \<and> press bme_row = Some (Fin 751)"
proof -
  have m: "dht_row \<in> set (inserted [Insert dht_row, Insert bme_row])" by simp
  have s: "sensor dht_row = ''dht22''" "press bme_row = Some (Fin 751)"
    by (simp_all add: row_defs)
  from dht_rows_have_no_pressure [OF both_batch_of_two_eval] m s(1)
  have "press dht_row = None" by blast
  with both_batch_of_two_eval m s show ?thesis by blast
qed


section \<open>The end-to-end scenario\<close>

text \<open>
  Claim C1, as stated, fails: under the default configuration the resolved zone
  \<^verbatim>\<open>indoor\<close> equals \<^verbatim>\<open>DEFAULT_ZONE\<close>, so line 175 leaves the column out and the
  row holds \<^verbatim>\<open>NULL\<close> there, not \<^verbatim>\<open>indoor\<close>.
\<close>

theorem scenario_zone_counterexample:
  "map zone (inserted (fst (snd
      (do_POST default_config 1700000000 1700000000 (Inr scenario) initial)))) \<noteq>
   [Some ''indoor'']"
proof -
  have "inserted (fst (snd
      (do_POST default_config 1700000000 1700000000 (Inr scenario) initial))) = [scenario_row]"
    using scenario_inserted [of 1700000000] by simp
  then show ?thesis by (simp add: scenario_row_def)
qed

text \<open>
  Claim C1, amended. The submission
  \<^verbatim>\<open>{t_bme: 21.5, h_bme: 44, pressure: 751, zone: "indoor"}\<close> received at server time
  \<open>1700000000\<close> under the default configuration is answered with 200 and inserts exactly
  one row: sensor \<^verbatim>\<open>bme280\<close>, ts \<open>1700000000\<close>, temp 21.5, hum 44, press 751, and the
  zone and source columns \<^verbatim>\<open>NULL\<close>, because the resolved zone \<^verbatim>\<open>indoor\<close> is the
  default zone and the source is the default source.
\<close>

theorem scenario_row_inserted:
  assumes "py_int clock1 = 1700000000"
  shows "fst (do_POST default_config clock1 clock2 (Inr scenario) st) = 200 \<and>
         inserted (fst (snd (do_POST default_config clock1 clock2 (Inr scenario) st))) =
           [\<lparr>ts = 1700000000, sensor = ''bme280'', zone = None, temp = Some (Fin 21.5),
             hum = Some (Fin 44), press = Some (Fin 751), source = None\<rparr>] \<and>
         resolve_zone default_config ''bme280'' ''indoor'' = DEFAULT_ZONE default_config"
  using scenario_inserted [OF assms, of clock2 st]
    resolve_zone_default [of default_config "''bme280''"]
  by (simp add: scenario_row_def default_config_def)

theorem scenario_row_inserted_witness:
  "py_int 1700000000.5 = 1700000000 \<and>
   inserted (fst (snd (do_POST default_config 1700000000.5 1700000001 (Inr scenario) initial))) =
     [\<lparr>ts = 1700000000, sensor = ''bme280'', zone = None, temp = Some (Fin 21.5),
       hum = Some (Fin 44), press = Some (Fin 751), source = None\<rparr>]"
proof -
  have h: "py_int 1700000000.5 = 1700000000" by (simp add: py_int_def)
  from scenario_row_inserted [OF h, of 1700000001 initial] h show ?thesis by blast
qed

section \<open>Synonym keys\<close>

text \<open>
  Claim C2 does not hold of the code: the chains of lines 134--143 pick the first value
  that is \<^emph>\<open>true\<close>, not the first that is a number. A reading of \<open>0\<close> under
  \<^verbatim>\<open>t_bme\<close> is false, so a \<^verbatim>\<open>temperature\<close> sent with it is stored in its place, and
  sent alone under a key that is not the last of its chain it is dropped.
\<close>

theorem zero_reading_loses_priority:
  "do_POST default_config 1700000000 1700000000 (Inr zero_first) initial =
     (200,
      [Insert \<lparr>ts = 1700000000, sensor = ''bme280'', zone = None, temp = Some (Fin 25),
               hum = None, press = None, source = None\<rparr>, Commit],
      \<lparr>readings = [\<lparr>ts = 1700000000, sensor = ''bme280'', zone = None, temp = Some (Fin 25),
                     hum = None, press = None, source = None\<rparr>],
       inserts_since_commit = 0, inserts_since_cleanup = 1, last_cleanup_ts = 0\<rparr>) \<and>
   do_POST default_config 1700000000 1700000000 (Inr (PDict [(''t_bme'', PInt 0)])) initial =
     (200, [], initial) \<and>
   to_float (PInt 0) = Inr (Some (Fin 0))"
proof -
  have "to_float (PInt 0) = Inr (Some (Fin 0))" by (simp add: py_defs)
  with zero_first_eval lone_zero_eval show ?thesis by blast
qed

theorem zero_reading_loses_priority_witness:
  "map temp (inserted (fst (snd
      (do_POST default_config 1700000000 1700000000 (Inr zero_first) initial)))) =
   [Some (Fin 25)]"
proof -
  have "fst (snd (do_POST default_config 1700000000 1700000000 (Inr zero_first) initial)) =
     [Insert \<lparr>ts = 1700000000, sensor = ''bme280'', zone = None, temp = Some (Fin 25),
              hum = None, press = None, source = None\<rparr>, Commit]"
    using zero_reading_loses_priority by simp
  then show ?thesis by simp
qed

section \<open>The write batcher\<close>

text \<open>
  Claim C3, as stated, fails: the counter counts submissions that wrote, not rows. With a
  threshold of two, a first submission that inserts two rows makes no commit.
\<close>

theorem flush_per_row_counterexample:
  "COMMIT_EVERY batch_of_two = 2 \<and>
   length (inserted (fst (snd
     (do_POST batch_of_two 1700000000 1700000000 (Inr both_groups) initial)))) = 2 \<and>
   Commit \<notin> set (fst (snd
     (do_POST batch_of_two 1700000000 1700000000 (Inr both_groups) initial)))"
  by (simp add: both_batch_of_two_eval) (simp add: cfg_defs)

text \<open>
  Claim C3, amended. With a flush threshold \<open>T \<ge> 1\<close> and the counter at zero, the write
  batcher commits (line 196) on exactly every \<open>T\<close>-th submission that inserted at least
  one row, counted from one over such submissions, and after each request the counter is
  the number of such submissions so far modulo \<open>T\<close>: zero right after each flush. (A sweep
  commits on its own, lines 203 and 206.)
\<close>

theorem flush_every_T_writing_submissions:
  assumes "1 \<le> COMMIT_EVERY cfg" and "inserts_since_commit st = 0" and "i < length rqs"
  shows "(batch_commit (fst (snd (serve cfg rqs st ! i))) \<longleftrightarrow>
            wrote (serve cfg rqs st ! i) \<and>
            COMMIT_EVERY cfg dvd int (writes (take (Suc i) (serve cfg rqs st)))) \<and>
         inserts_since_commit (snd (snd (serve cfg rqs st ! i))) =
            int (writes (take (Suc i) (serve cfg rqs st))) mod COMMIT_EVERY cfg \<and>
         (batch_commit (fst (snd (serve cfg rqs st ! i))) \<longrightarrow>
            inserts_since_commit (snd (snd (serve cfg rqs st ! i))) = 0)"
proof -
  have "inserts_since_commit st = int 0 mod COMMIT_EVERY cfg" using assms(2) by simp
  from serve_flush [OF assms(1) this assms(3)] show ?thesis by auto
qed

theorem flush_every_T_writing_submissions_witness:
  "1 \<le> COMMIT_EVERY batch_of_two \<and> inserts_since_commit initial = 0 \<and>
   2 < length three_requests \<and>
   writes (take (Suc 0) (serve batch_of_two three_requests initial)) = 1 \<and>
   writes (take (Suc 2) (serve batch_of_two three_requests initial)) = 2 \<and>
   \<not> batch_commit (fst (snd (serve batch_of_two three_requests initial ! 0))) \<and>
   batch_commit (fst (snd (serve batch_of_two three_requests initial ! 2))) \<and>
   inserts_since_commit (snd (snd (serve batch_of_two three_requests initial ! 2))) = 0"
proof -
  let ?outs = "serve batch_of_two three_requests initial"
  have p: "1 \<le> COMMIT_EVERY batch_of_two" "inserts_since_commit initial = 0"
    "2 < length three_requests" "0 < length three_requests"
    by (simp_all add: cfg_defs initial_def three_requests_def)
  have w: "writes (take (Suc 0) ?outs) = 1" "writes (take (Suc 2) ?outs) = 2"
    "wrote (?outs ! 2)"
    by (simp_all add: serve_three_eval writes_def wrote_def)
  have d: "\<not> COMMIT_EVERY batch_of_two dvd int 1" "COMMIT_EVERY batch_of_two dvd int 2"
    by (simp_all add: cfg_defs)
  have r0: "\<not> batch_commit (fst (snd (?outs ! 0)))"
    using flush_every_T_writing_submissions [OF p(1) p(2) p(4)] d(1) unfolding w(1) by blast
  have r2: "batch_commit (fst (snd (?outs ! 2)))"
    using flush_every_T_writing_submissions [OF p(1) p(2) p(3)] d(2) w(3) unfolding w(2) by blast
  have r3: "inserts_since_commit (snd (snd (?outs ! 2))) = 0"
    using flush_every_T_writing_submissions [OF p(1) p(2) p(3)] r2 by blast
  from p w r0 r2 r3 show ?thesis by blast
qed


section \<open>Counters and the outcome of a request\<close>





section \<open>The retention sweeper\<close>

text \<open>
  Claim C5. With count threshold \<open>C\<close> and minimum interval \<open>I\<close>, a request runs no sweep
  when the inserts since the last sweep, this submission counted, are fewer than \<open>C\<close>, or
  when fewer than \<open>I\<close> seconds have passed since the last sweep, whatever the other gate
  says; a request that inserted a row with both gates satisfied runs exactly one sweep,
  one \<^verbatim>\<open>DELETE\<close>. A request that inserted nothing runs none.
\<close>

theorem sweep_gating:
  assumes "do_POST cfg clock1 clock2 body st = (status, tr, st')"
  shows "(inserts_since_cleanup st + 1 < CLEANUP_EVERY cfg \<or>
          clock2 - last_cleanup_ts st < real_of_int (CLEANUP_INTERVAL_SEC cfg) \<longrightarrow>
            filter is_Delete tr = []) \<and>
         (inserted tr \<noteq> [] \<and> CLEANUP_EVERY cfg \<le> inserts_since_cleanup st + 1 \<and>
          real_of_int (CLEANUP_INTERVAL_SEC cfg) \<le> clock2 - last_cleanup_ts st \<longrightarrow>
            filter is_Delete tr = [Delete (py_int clock2 - RETENTION_DAYS cfg * 86400)]) \<and>
         (inserted tr = [] \<longrightarrow> filter is_Delete tr = [])"
  using assms
  by (cases rule: do_POST_cases) (auto simp: sweep_due_def cutoff_at_def)

theorem sweep_gating_witness:
  "filter is_Delete (fst (snd
     (do_POST default_config 1700000000 1700000000 (Inr both_groups) initial))) = [] \<and>
   filter is_Delete (fst (snd
     (do_POST eager_sweep 1700000000 1700000000 (Inr both_groups) just_swept))) = [] \<and>
   filter is_Delete (fst (snd
     (do_POST eager_sweep 1700000000 1700000000 (Inr both_groups) initial))) =
     [Delete 1692224000]"
proof -
  let ?a = "do_POST default_config 1700000000 1700000000 (Inr both_groups) initial"
  let ?b = "do_POST eager_sweep 1700000000 1700000000 (Inr both_groups) just_swept"
  let ?c = "do_POST eager_sweep 1700000000 1700000000 (Inr both_groups) initial"
  have ha: "inserts_since_cleanup initial + 1 < CLEANUP_EVERY default_config"
    by (simp add: cfg_defs initial_def)
  have hb: "1700000000 - last_cleanup_ts just_swept <
      real_of_int (CLEANUP_INTERVAL_SEC eager_sweep)"
    by (simp add: cfg_defs just_swept_def initial_def)
  have hc: "inserted (fst (snd ?c)) \<noteq> [] \<and>
      CLEANUP_EVERY eager_sweep \<le> inserts_since_cleanup initial + 1 \<and>
      real_of_int (CLEANUP_INTERVAL_SEC eager_sweep) \<le> 1700000000 - last_cleanup_ts initial"
    unfolding both_eager_initial_eval by (simp add: cfg_defs initial_def)
  have k: "py_int 1700000000 - RETENTION_DAYS eager_sweep * 86400 = 1692224000"
    by (simp add: cfg_defs)
  have ra: "filter is_Delete (fst (snd ?a)) = []"
    using sweep_gating [OF triple_collapse [of ?a]] ha by blast
  have rb: "filter is_Delete (fst (snd ?b)) = []"
    using sweep_gating [OF triple_collapse [of ?b]] hb by blast
  have "filter is_Delete (fst (snd ?c)) =
      [Delete (py_int 1700000000 - RETENTION_DAYS eager_sweep * 86400)]"
    using sweep_gating [OF triple_collapse [of ?c]] hc by blast
  then have rc: "filter is_Delete (fst (snd ?c)) = [Delete 1692224000]"
    by (simp only: k)
  from ra rb rc show ?thesis by blast
qed

text \<open>
  Claim C6. When a request runs a sweep, the cutoff is the current time in whole seconds
  less \<^verbatim>\<open>RETENTION_DAYS\<close> times 86400, and the table afterwards is the table before
  the sweep (the rows of this request included) restricted to the rows whose timestamp is
  at least the cutoff, each as it was and in the same order: exactly the rows with a
  timestamp strictly below the cutoff are gone.
\<close>

theorem sweep_retention:
  assumes "do_POST cfg clock1 clock2 body st = (status, tr, st')" and "Delete cutoff \<in> set tr"
  shows "cutoff = py_int clock2 - RETENTION_DAYS cfg * 86400 \<and>
         readings st' = filter (\<lambda>r. cutoff \<le> ts r) (readings st @ inserted tr) \<and>
         (\<forall>r \<in> set (readings st @ inserted tr).
            (r \<in> set (readings st') \<longleftrightarrow> \<not> ts r < cutoff))"
  using assms
  by (cases rule: do_POST_cases) (auto simp: cutoff_at_def split: if_splits)

theorem sweep_retention_witness:
  "Delete 1692224000 \<in> set (fst (snd
     (do_POST eager_sweep 1700000000 1700000000.5 (Inr both_groups) aged))) \<and>
   py_int 1700000000.5 - RETENTION_DAYS eager_sweep * 86400 = 1692224000 \<and>
   readings aged = [aged_row 1692223999, aged_row 1692224000, aged_row 1699999999] \<and>
   readings (snd (snd (do_POST eager_sweep 1700000000 1700000000.5 (Inr both_groups) aged))) =
     [aged_row 1692224000, aged_row 1699999999, dht_row, bme_row]"
proof -
  let ?o = "do_POST eager_sweep 1700000000 1700000000.5 (Inr both_groups) aged"
  have d: "Delete 1692224000 \<in> set (fst (snd ?o))"
    and i: "inserted (fst (snd ?o)) = [dht_row, bme_row]"
    unfolding both_eager_aged_eval by simp_all
  have a: "readings aged = [aged_row 1692223999, aged_row 1692224000, aged_row 1699999999]"
    by (simp add: aged_def)
  from sweep_retention [OF triple_collapse [of ?o] d]
  have k: "1692224000 = py_int 1700000000.5 - RETENTION_DAYS eager_sweep * 86400"
    and r: "readings (snd (snd ?o)) =
      filter (\<lambda>r. 1692224000 \<le> ts r) (readings aged @ inserted (fst (snd ?o)))"
    by blast+
  have "filter (\<lambda>r. 1692224000 \<le> ts r) (readings aged @ [dht_row, bme_row]) =
      [aged_row 1692224000, aged_row 1699999999, dht_row, bme_row]"
    by (simp add: a row_defs)
  with r i have "readings (snd (snd ?o)) =
      [aged_row 1692224000, aged_row 1699999999, dht_row, bme_row]"
    by (simp only:)
  with d k a show ?thesis by (simp only: simp_thms)
qed

text \<open>
  Claim C7. A request that runs a sweep leaves the inserts-since-cleanup counter at zero
  and the last-sweep watermark at the current time, however many rows the sweep deleted,
  none included; it runs \<^verbatim>\<open>PRAGMA incremental_vacuum\<close> if and only if the sweep removed
  at least one row.
\<close>

theorem sweep_finish:
  assumes "do_POST cfg clock1 clock2 body st = (status, tr, st')" and "Delete cutoff \<in> set tr"
  shows "inserts_since_cleanup st' = 0 \<and> last_cleanup_ts st' = clock2 \<and>
         (IncrementalVacuum \<in> set tr \<longleftrightarrow>
            length (readings st') < length (readings st @ inserted tr))"
  using assms(1)
proof (cases rule: do_POST_cases)
  case (failed e)
  with assms(2) show ?thesis by simp
next
  case (nothing f)
  with assms(2) show ?thesis by simp
next
  case (wrote f rows)
  have due: "sweep_due cfg clock2 st" and k: "cutoff = cutoff_at cfg clock2"
    using assms(2) unfolding wrote(6) by (auto split: if_splits)
  have v: "IncrementalVacuum \<in> set tr \<longleftrightarrow>
      (\<exists>r \<in> set (readings st @ rows). ts r < cutoff_at cfg clock2)"
    unfolding wrote(6) using due by auto
  have "length (readings st') < length (readings st @ inserted tr) \<longleftrightarrow>
          (\<exists>r \<in> set (readings st @ rows). \<not> cutoff_at cfg clock2 \<le> ts r)"
    unfolding wrote(5) wrote(7) using due by (simp only: if_True filter_shorter)
  with v wrote(9,10) due show ?thesis by (simp add: not_le)
qed

theorem sweep_finish_witness:
  "Delete 1692224000 \<in> set (fst (snd
     (do_POST eager_sweep 1700000000 1700000000 (Inr both_groups) initial))) \<and>
   IncrementalVacuum \<notin> set (fst (snd
     (do_POST eager_sweep 1700000000 1700000000 (Inr both_groups) initial))) \<and>
   inserts_since_cleanup (snd (snd
     (do_POST eager_sweep 1700000000 1700000000 (Inr both_groups) initial))) = 0 \<and>
   last_cleanup_ts (snd (snd
     (do_POST eager_sweep 1700000000 1700000000 (Inr both_groups) initial))) = 1700000000 \<and>
   Delete 1692224000 \<in> set (fst (snd
     (do_POST eager_sweep 1700000000 1700000000.5 (Inr both_groups) aged))) \<and>
   IncrementalVacuum \<in> set (fst (snd
     (do_POST eager_sweep 1700000000 1700000000.5 (Inr both_groups) aged))) \<and>
   inserts_since_cleanup (snd (snd
     (do_POST eager_sweep 1700000000 1700000000.5 (Inr both_groups) aged))) = 0 \<and>
   last_cleanup_ts (snd (snd
     (do_POST eager_sweep 1700000000 1700000000.5 (Inr both_groups) aged))) = 1700000000.5"
proof -
  let ?a = "do_POST eager_sweep 1700000000 1700000000 (Inr both_groups) initial"
  let ?b = "do_POST eager_sweep 1700000000 1700000000.5 (Inr both_groups) aged"
  have da: "Delete 1692224000 \<in> set (fst (snd ?a))"
    and la: "\<not> length (readings (snd (snd ?a))) <
               length (readings initial @ inserted (fst (snd ?a)))"
    unfolding both_eager_initial_eval by (simp_all add: initial_def)
  have db: "Delete 1692224000 \<in> set (fst (snd ?b))"
    and lb: "length (readings (snd (snd ?b))) <
               length (readings aged @ inserted (fst (snd ?b)))"
    unfolding both_eager_aged_eval by (simp_all add: aged_def)
  note ta = sweep_finish [OF triple_collapse [of ?a] da]
  note tb = sweep_finish [OF triple_collapse [of ?b] db]
  from ta la have ra: "IncrementalVacuum \<notin> set (fst (snd ?a))"
    "inserts_since_cleanup (snd (snd ?a)) = 0" "last_cleanup_ts (snd (snd ?a)) = 1700000000"
    by blast+
  from tb lb have rb: "IncrementalVacuum \<in> set (fst (snd ?b))"
    "inserts_since_cleanup (snd (snd ?b)) = 0" "last_cleanup_ts (snd (snd ?b)) = 1700000000.5"
    by blast+
  from da db ra rb show ?thesis by blast
qed

end
